theory Spec2Isabelle
  imports Complex_Main
begin

section \<open>Data model\<close>

text \<open>
  The analytics functions of \<^verbatim>\<open>analysis.service.js\<close> and of the dashboard service work on
  plain trade objects. A JavaScript number is modelled as a real (exact arithmetic in
  place of IEEE doubles), a Date as its millisecond count, a string as a \<^typ>\<open>string\<close>.
  The trade's session is one of the three values the schema admits.
\<close>

datatype session = LONDON | NY | ASIA

record trade =
  tradeId :: nat
  entryTime :: int
  riskPercentUsed :: real
  profitLoss :: real
  riskRewardAchieved :: real
  session :: session
  stopLossHit :: bool
  exitedEarly :: bool
  targetPercentAchieved :: real

text \<open>\<^verbatim>\<open>Math.round\<close>: the nearest integer, a half rounded towards plus infinity.\<close>

definition Math_round :: "real \<Rightarrow> int" where
  "Math_round x = \<lfloor>x + 1 / 2\<rfloor>"

text \<open>\<^verbatim>\<open>Math.round(x * 100) / 100\<close>, the two-decimal rounding of the dashboard service.\<close>

definition round2 :: "real \<Rightarrow> real" where
  "round2 x = real_of_int (Math_round (x * 100)) / 100"

text \<open>
  \<^verbatim>\<open>xs.reduce(f)\<close> without an initial value throws a TypeError on an empty array;
  otherwise it folds from the first element.
\<close>

datatype error = TypeError

definition reduce1 :: "('a \<Rightarrow> 'a \<Rightarrow> 'a) \<Rightarrow> 'a list \<Rightarrow> error + 'a" where
  "reduce1 f xs = (case xs of [] \<Rightarrow> Inl TypeError | x # rest \<Rightarrow> Inr (foldl f x rest))"

text \<open>\<^verbatim>\<open>xs.slice(a, b)\<close> for \<open>0 \<le> a\<close> and \<open>0 \<le> b\<close>.\<close>

definition slice :: "nat \<Rightarrow> nat \<Rightarrow> 'a list \<Rightarrow> 'a list" where
  "slice a b xs = drop a (take b xs)"

text \<open>
  \<^verbatim>\<open>xs.slice(0, limit)\<close> for any integer limit: a negative limit counts from the end.
\<close>

definition slice0 :: "int \<Rightarrow> 'a list \<Rightarrow> 'a list" where
  "slice0 limit xs =
     (if limit < 0 then take (nat (int (length xs) + limit)) xs else take (nat limit) xs)"

section \<open>State classifier\<close>

record PsychologicalStateResult =
  state :: string
  confidence :: int
  riskTolerance :: int
  emotionalBalance :: int
  lastUpdated :: string
  recommendations :: "string list"

definition winningTrades :: "trade list \<Rightarrow> nat" where
  "winningTrades trades = length (filter (\<lambda>t. profitLoss t > 0) trades)"

definition winRate :: "trade list \<Rightarrow> real" where
  "winRate trades =
     (if length trades > 0 then real (winningTrades trades) / real (length trades) * 100 else 0)"

definition avgRiskUsed :: "trade list \<Rightarrow> real" where
  "avgRiskUsed trades =
     foldl (\<lambda>sum t. sum + riskPercentUsed t) 0 trades / real (length trades)"

definition avgTargetAchieved :: "trade list \<Rightarrow> real" where
  "avgTargetAchieved trades =
     foldl (\<lambda>sum t. sum + targetPercentAchieved t) 0 trades / real (length trades)"

definition earlyExits :: "trade list \<Rightarrow> nat" where
  "earlyExits trades = length (filter exitedEarly trades)"

definition stopLossHits :: "trade list \<Rightarrow> nat" where
  "stopLossHits trades = length (filter stopLossHit trades)"

text \<open>
  The mutable locals \<^verbatim>\<open>state, confidence, riskTolerance, emotionalBalance, recommendations\<close>
  are threaded through the rules in the order of the source.
\<close>

record classifierVars =
  v_state :: string
  v_confidence :: real
  v_riskTolerance :: real
  v_emotionalBalance :: real
  v_recommendations :: "string list"

definition initialVars :: classifierVars where
  "initialVars = \<lparr>v_state = ''NEUTRAL'', v_confidence = 50, v_riskTolerance = 50,
     v_emotionalBalance = 50, v_recommendations = []\<rparr>"

definition winRateRule :: "trade list \<Rightarrow> classifierVars \<Rightarrow> classifierVars" where
  "winRateRule trades v =
     (if winRate trades \<ge> 70 then
        v\<lparr>v_state := ''CONFIDENT'',
          v_confidence := min 95 (50 + (winRate trades - 50) * 0.9),
          v_riskTolerance := min 80 (50 + (winRate trades - 50) * 0.6)\<rparr>
      else if winRate trades \<le> 30 then
        v\<lparr>v_state := ''FRUSTRATED'',
          v_confidence := max 20 (50 - (50 - winRate trades) * 0.6),
          v_riskTolerance := max 20 (50 - (50 - winRate trades) * 0.6)\<rparr>
      else v)"

definition riskRule :: "trade list \<Rightarrow> classifierVars \<Rightarrow> classifierVars" where
  "riskRule trades v =
     (if avgRiskUsed trades > 3 then
        v\<lparr>v_state := ''GREEDY'',
          v_riskTolerance := min 90 (v_riskTolerance v + 20),
          v_recommendations := v_recommendations v @ [''Reduce risk per trade'']\<rparr>
      else if avgRiskUsed trades < 1 then
        v\<lparr>v_state := ''FEARFUL'',
          v_riskTolerance := max 10 (v_riskTolerance v - 20),
          v_recommendations :=
            v_recommendations v @ [''Consider increasing position size gradually'']\<rparr>
      else v)"

definition earlyExitRule :: "trade list \<Rightarrow> classifierVars \<Rightarrow> classifierVars" where
  "earlyExitRule trades v =
     (if real (earlyExits trades) / real (length trades) > 0.3 then
        v\<lparr>v_emotionalBalance := max 30 (v_emotionalBalance v - 20),
          v_recommendations :=
            v_recommendations v @ [''Work on holding profitable trades longer'']\<rparr>
      else v)"

definition stopLossRule :: "trade list \<Rightarrow> classifierVars \<Rightarrow> classifierVars" where
  "stopLossRule trades v =
     (if real (stopLossHits trades) / real (length trades) > 0.4 then
        v\<lparr>v_emotionalBalance := max 30 (v_emotionalBalance v - 15),
          v_recommendations :=
            v_recommendations v @ [''Review entry strategies and market analysis'']\<rparr>
      else v)"

definition targetRule :: "trade list \<Rightarrow> classifierVars \<Rightarrow> classifierVars" where
  "targetRule trades v =
     (if avgTargetAchieved trades < 50 then
        v\<lparr>v_recommendations :=
            v_recommendations v @ [''Improve trade management and target setting'']\<rparr>
      else v)"

definition defaultRule :: "classifierVars \<Rightarrow> classifierVars" where
  "defaultRule v =
     (if length (v_recommendations v) = 0 then
        v\<lparr>v_recommendations := v_recommendations v @ [''Continue current trading approach'']\<rparr>
      else v)"

definition classify :: "trade list \<Rightarrow> classifierVars" where
  "classify trades =
     defaultRule (targetRule trades (stopLossRule trades (earlyExitRule trades
       (riskRule trades (winRateRule trades initialVars)))))"

text \<open>The argument \<open>now\<close> is the wall-clock string \<^verbatim>\<open>new Date().toISOString()\<close>.\<close>

definition analyzePsychologicalState :: "string \<Rightarrow> trade list \<Rightarrow> PsychologicalStateResult" where
  "analyzePsychologicalState now trades =
     (if length trades = 0 then
        \<lparr>state = ''NEUTRAL'', confidence = 50, riskTolerance = 50, emotionalBalance = 50,
         lastUpdated = now,
         recommendations = [''Start trading to build psychological profile'']\<rparr>
      else
        (let v = classify trades in
         \<lparr>state = v_state v,
          confidence = Math_round (v_confidence v),
          riskTolerance = Math_round (v_riskTolerance v),
          emotionalBalance = Math_round (v_emotionalBalance v),
          lastUpdated = now,
          recommendations = v_recommendations v\<rparr>))"

section \<open>Session forecaster\<close>

record Factor =
  factor :: string
  impact :: string
  weight :: real

record SessionForecastResult =
  sf_session :: string
  forecast :: string
  probability :: int
  factors :: "Factor list"
  sf_recommendations :: "string list"

text \<open>\<^verbatim>\<open>toUpperCase\<close> on the ASCII letters, which is all a session token holds.\<close>

definition toUpperCase :: "string \<Rightarrow> string" where
  "toUpperCase s =
     map (\<lambda>c. if (97::nat) \<le> of_char c \<and> of_char c \<le> (122::nat)
               then char_of (of_char c - (32::nat)) else c) s"

definition avgProfit :: "trade list \<Rightarrow> real" where
  "avgProfit trades = foldl (\<lambda>sum t. sum + profitLoss t) 0 trades / real (length trades)"

definition avgRisk :: "trade list \<Rightarrow> real" where
  "avgRisk trades = foldl (\<lambda>sum t. sum + riskPercentUsed t) 0 trades / real (length trades)"

definition sessionWinRate :: "trade list \<Rightarrow> real" where
  "sessionWinRate trades = real (winningTrades trades) / real (length trades) * 100"

text \<open>
  The locals \<^verbatim>\<open>probability\<close> and \<^verbatim>\<open>factors\<close> are threaded through the three factor
  rules as a pair.
\<close>

definition winRateFactor :: "trade list \<Rightarrow> int \<times> Factor list \<Rightarrow> int \<times> Factor list" where
  "winRateFactor trades pf =
     (if sessionWinRate trades \<ge> 60 then
        (fst pf + 20,
         snd pf @ [\<lparr>factor = ''Historical win rate'', impact = ''POSITIVE'', weight = 0.4\<rparr>])
      else if sessionWinRate trades \<le> 40 then
        (fst pf - 20,
         snd pf @ [\<lparr>factor = ''Historical win rate'', impact = ''NEGATIVE'', weight = 0.4\<rparr>])
      else pf)"

definition profitFactor :: "trade list \<Rightarrow> int \<times> Factor list \<Rightarrow> int \<times> Factor list" where
  "profitFactor trades pf =
     (if avgProfit trades > 0 then
        (fst pf + 15,
         snd pf @ [\<lparr>factor = ''Average profitability'', impact = ''POSITIVE'', weight = 0.3\<rparr>])
      else
        (fst pf - 15,
         snd pf @ [\<lparr>factor = ''Average profitability'', impact = ''NEGATIVE'', weight = 0.3\<rparr>]))"

definition riskFactor :: "trade list \<Rightarrow> int \<times> Factor list \<Rightarrow> int \<times> Factor list" where
  "riskFactor trades pf =
     (if avgRisk trades \<le> 2 then
        (fst pf + 10,
         snd pf @ [\<lparr>factor = ''Risk management'', impact = ''POSITIVE'', weight = 0.3\<rparr>])
      else
        (fst pf - 10,
         snd pf @ [\<lparr>factor = ''Risk management'', impact = ''NEGATIVE'', weight = 0.3\<rparr>]))"

definition forecastFactors :: "trade list \<Rightarrow> int \<times> Factor list" where
  "forecastFactors trades = riskFactor trades (profitFactor trades (winRateFactor trades (50, [])))"

text \<open>The value of \<^verbatim>\<open>probability\<close> before the final clamp.\<close>

definition rawProbability :: "trade list \<Rightarrow> int" where
  "rawProbability trades = fst (forecastFactors trades)"

definition forecastOf :: "int \<Rightarrow> string" where
  "forecastOf p = (if p \<ge> 65 then ''POSITIVE'' else if p \<le> 35 then ''NEGATIVE'' else ''NEUTRAL'')"

definition forecastRecommendations :: "string \<Rightarrow> string list" where
  "forecastRecommendations f =
     (if f = ''POSITIVE'' then
        [''Consider increasing position size'', ''Focus on high-probability setups'']
      else if f = ''NEGATIVE'' then
        [''Reduce position sizes'', ''Be more selective with entries'']
      else [''Trade with normal position sizes'', ''Monitor market conditions closely''])"

definition analyzeSessionForecast :: "trade list \<Rightarrow> string \<Rightarrow> SessionForecastResult" where
  "analyzeSessionForecast trades sess =
     (if length trades = 0 then
        \<lparr>sf_session = toUpperCase sess, forecast = ''NEUTRAL'', probability = 50,
         factors = [\<lparr>factor = ''No historical data'', impact = ''NEUTRAL'', weight = 1.0\<rparr>],
         sf_recommendations = [''Start trading this session to build forecast data'']\<rparr>
      else
        (let p = rawProbability trades; f = forecastOf p in
         \<lparr>sf_session = toUpperCase sess, forecast = f,
          probability = max 0 (min 100 p),
          factors = snd (forecastFactors trades),
          sf_recommendations = forecastRecommendations f\<rparr>))"

section \<open>Counting by key\<close>

text \<open>
  \<^verbatim>\<open>counts[k] = (counts[k] || 0) + 1\<close> on an object literal: the keys keep the order of
  their first insertion, which \<^verbatim>\<open>Object.keys\<close> returns. The keys here are state and
  session names, never integer-like strings.
\<close>

definition bump :: "('k \<times> nat) list \<Rightarrow> 'k \<Rightarrow> ('k \<times> nat) list" where
  "bump counts k =
     (case map_of counts k of
        None \<Rightarrow> counts @ [(k, 1)]
      | Some c \<Rightarrow> map (\<lambda>(k', c'). if k' = k then (k', c' + 1) else (k', c')) counts)"

definition countKeys :: "'k list \<Rightarrow> ('k \<times> nat) list" where
  "countKeys ks = foldl bump [] ks"

definition Object_keys :: "('k \<times> nat) list \<Rightarrow> 'k list" where
  "Object_keys counts = map fst counts"

text \<open>\<^verbatim>\<open>counts[k]\<close>; only keys of the object are looked up.\<close>

definition lookup :: "('k \<times> nat) list \<Rightarrow> 'k \<Rightarrow> nat" where
  "lookup counts k = (case map_of counts k of None \<Rightarrow> 0 | Some c \<Rightarrow> c)"

text \<open>\<^verbatim>\<open>Object.keys(counts).reduce((a, b) => (counts[a] > counts[b] ? a : b))\<close>\<close>

definition maxKey :: "('k \<times> nat) list \<Rightarrow> error + 'k" where
  "maxKey counts =
     reduce1 (\<lambda>a b. if lookup counts a > lookup counts b then a else b) (Object_keys counts)"

section \<open>Performance insight generator\<close>

record Insight =
  i_type :: string
  description :: string
  i_confidence :: int
  i_impact :: string

record Pattern =
  pattern :: string
  frequency :: int
  correlation :: real

record PerformanceInsightsResult =
  period :: string
  insights :: "Insight list"
  patterns :: "Pattern list"
  pi_recommendations :: "string list"

definition avgRiskReward :: "trade list \<Rightarrow> real" where
  "avgRiskReward trades =
     foldl (\<lambda>sum t. sum + riskRewardAchieved t) 0 trades / real (length trades)"

definition sessionName :: "session \<Rightarrow> string" where
  "sessionName s = (case s of LONDON \<Rightarrow> ''LONDON'' | NY \<Rightarrow> ''NY'' | ASIA \<Rightarrow> ''ASIA'')"

text \<open>The locals \<^verbatim>\<open>insights, patterns, recommendations\<close> of the generator.\<close>

record insightVars =
  g_insights :: "Insight list"
  g_patterns :: "Pattern list"
  g_recommendations :: "string list"

definition winRateInsight :: "trade list \<Rightarrow> insightVars \<Rightarrow> insightVars" where
  "winRateInsight trades g =
     (if sessionWinRate trades \<ge> 70 then
        g\<lparr>g_insights := g_insights g @
            [\<lparr>i_type = ''STRENGTH'',
              description = ''Excellent win rate indicates strong market analysis skills'',
              i_confidence = Math_round (sessionWinRate trades), i_impact = ''HIGH''\<rparr>]\<rparr>
      else if sessionWinRate trades \<le> 30 then
        g\<lparr>g_insights := g_insights g @
            [\<lparr>i_type = ''WEAKNESS'',
              description = ''Low win rate suggests need for better entry strategies'',
              i_confidence = Math_round (100 - sessionWinRate trades), i_impact = ''HIGH''\<rparr>],
          g_recommendations := g_recommendations g @
            [''Review entry criteria and market analysis'']\<rparr>
      else g)"

definition riskInsight :: "trade list \<Rightarrow> insightVars \<Rightarrow> insightVars" where
  "riskInsight trades g =
     (if avgRisk trades \<le> 2 then
        g\<lparr>g_insights := g_insights g @
            [\<lparr>i_type = ''STRENGTH'',
              description = ''Consistent risk management shows good discipline'',
              i_confidence = 85, i_impact = ''HIGH''\<rparr>]\<rparr>
      else if avgRisk trades > 3 then
        g\<lparr>g_insights := g_insights g @
            [\<lparr>i_type = ''WEAKNESS'',
              description = ''High risk per trade may lead to account blowouts'',
              i_confidence = 80, i_impact = ''HIGH''\<rparr>],
          g_recommendations := g_recommendations g @
            [''Reduce risk per trade to protect capital'']\<rparr>
      else g)"

definition riskRewardInsight :: "trade list \<Rightarrow> insightVars \<Rightarrow> insightVars" where
  "riskRewardInsight trades g =
     (if avgRiskReward trades \<ge> 1.5 then
        g\<lparr>g_insights := g_insights g @
            [\<lparr>i_type = ''STRENGTH'',
              description = ''Good risk-reward ratios maximize profit potential'',
              i_confidence = 75, i_impact = ''MEDIUM''\<rparr>]\<rparr>
      else if avgRiskReward trades < 1 then
        g\<lparr>g_insights := g_insights g @
            [\<lparr>i_type = ''WEAKNESS'',
              description = ''Poor risk-reward ratios limit profit potential'',
              i_confidence = 70, i_impact = ''MEDIUM''\<rparr>],
          g_recommendations := g_recommendations g @
            [''Focus on trades with better risk-reward ratios'']\<rparr>
      else g)"

definition earlyExitPattern :: "trade list \<Rightarrow> insightVars \<Rightarrow> insightVars" where
  "earlyExitPattern trades g =
     (if real (earlyExits trades) / real (length trades) > 0.3 then
        g\<lparr>g_patterns := g_patterns g @
            [\<lparr>pattern = ''Early exit on profitable trades'',
              frequency = Math_round (real (earlyExits trades) / real (length trades) * 100),
              correlation = - 0.3\<rparr>],
          g_recommendations := g_recommendations g @ [''Practice holding winners longer'']\<rparr>
      else g)"

definition stopLossPattern :: "trade list \<Rightarrow> insightVars \<Rightarrow> insightVars" where
  "stopLossPattern trades g =
     (if real (stopLossHits trades) / real (length trades) > 0.4 then
        g\<lparr>g_patterns := g_patterns g @
            [\<lparr>pattern = ''Frequent stop loss hits'',
              frequency = Math_round (real (stopLossHits trades) / real (length trades) * 100),
              correlation = - 0.5\<rparr>],
          g_recommendations := g_recommendations g @
            [''Improve entry timing and market analysis'']\<rparr>
      else g)"

definition sessionCounts :: "trade list \<Rightarrow> (session \<times> nat) list" where
  "sessionCounts trades = countKeys (map session trades)"

definition bestSession :: "trade list \<Rightarrow> error + session" where
  "bestSession trades = maxKey (sessionCounts trades)"

definition sessionInsight :: "trade list \<Rightarrow> session \<Rightarrow> insightVars \<Rightarrow> insightVars" where
  "sessionInsight trades best g =
     (if real (lookup (sessionCounts trades) best) / real (length trades) > 0.5 then
        g\<lparr>g_insights := g_insights g @
            [\<lparr>i_type = ''OPPORTUNITY'',
              description = ''Strong performance in '' @ sessionName best @ '' session'',
              i_confidence = 70, i_impact = ''MEDIUM''\<rparr>]\<rparr>
      else g)"

definition defaultRecommendations :: "insightVars \<Rightarrow> insightVars" where
  "defaultRecommendations g =
     (if length (g_recommendations g) = 0 then
        g\<lparr>g_recommendations := g_recommendations g @
            [''Continue current trading approach'', ''Monitor performance metrics regularly'']\<rparr>
      else g)"

definition analyzePerformanceInsights ::
  "trade list \<Rightarrow> string \<Rightarrow> error + PerformanceInsightsResult" where
  "analyzePerformanceInsights trades per =
     (if length trades = 0 then
        Inr \<lparr>period = per,
             insights = [\<lparr>i_type = ''OPPORTUNITY'',
                          description = ''No trading data available for analysis'',
                          i_confidence = 100, i_impact = ''LOW''\<rparr>],
             patterns = [],
             pi_recommendations = [''Start trading to generate performance insights'']\<rparr>
      else
        (let g = stopLossPattern trades (earlyExitPattern trades (riskRewardInsight trades
                   (riskInsight trades (winRateInsight trades
                     \<lparr>g_insights = [], g_patterns = [], g_recommendations = []\<rparr>))))
         in case bestSession trades of
              Inl e \<Rightarrow> Inl e
            | Inr best \<Rightarrow>
                (let g' = defaultRecommendations (sessionInsight trades best g) in
                 Inr \<lparr>period = per, insights = g_insights g', patterns = g_patterns g',
                      pi_recommendations = g_recommendations g'\<rparr>)))"

text \<open>
  \<^verbatim>\<open>getPerformanceInsights(userId, period)\<close> fetches the user's trades of the period from
  the store and hands them to the generator. The store is outside the model: the
  argument \<open>periodTrades\<close> is what the query returned.
\<close>

definition getPerformanceInsights ::
  "trade list \<Rightarrow> string \<Rightarrow> error + PerformanceInsightsResult" where
  "getPerformanceInsights periodTrades per = analyzePerformanceInsights periodTrades per"

section \<open>State history analyzer\<close>

record HistoryContext =
  c_tradeId :: nat
  c_profitLoss :: real
  c_riskPercentUsed :: real

record HistoryEntry =
  timestamp :: int
  h_state :: string
  h_confidence :: int
  trigger :: string
  h_context :: HistoryContext

record HistorySummary =
  totalChanges :: nat
  mostCommonState :: string
  averageConfidence :: int
  volatility :: real

record StateHistoryResult =
  history :: "HistoryEntry list"
  summary :: HistorySummary

definition getStateTrigger :: "trade \<Rightarrow> string" where
  "getStateTrigger t =
     (if profitLoss t > 0 then ''Profitable trade''
      else if profitLoss t < 0 then ''Losing trade''
      else if exitedEarly t then ''Early exit''
      else if stopLossHit t then ''Stop loss hit''
      else ''Trade execution'')"

text \<open>The locals of the replay loop.\<close>

record loopVars =
  l_history :: "HistoryEntry list"
  l_states :: "string list"
  l_confidences :: "int list"
  l_lastState :: "PsychologicalStateResult option"
  l_stateChangeCount :: nat

definition recordEvent :: "trade \<Rightarrow> PsychologicalStateResult \<Rightarrow> loopVars \<Rightarrow> loopVars" where
  "recordEvent t st l =
     \<lparr>l_history = l_history l @
        [\<lparr>timestamp = entryTime t, h_state = state st, h_confidence = confidence st,
          trigger = getStateTrigger t,
          h_context = \<lparr>c_tradeId = tradeId t, c_profitLoss = profitLoss t,
                       c_riskPercentUsed = riskPercentUsed t\<rparr>\<rparr>],
      l_states = l_states l @ [state st],
      l_confidences = l_confidences l @ [confidence st],
      l_lastState = Some st,
      l_stateChangeCount = l_stateChangeCount l + 1\<rparr>"

definition significant :: "PsychologicalStateResult option \<Rightarrow> PsychologicalStateResult \<Rightarrow> bool" where
  "significant lastState st =
     (case lastState of
        None \<Rightarrow> True
      | Some l \<Rightarrow> state l \<noteq> state st \<or> \<bar>confidence l - confidence st\<bar> > 15)"

text \<open>
  The \<^verbatim>\<open>for\<close> loop over the sorted trades; \<open>clock i\<close> is the wall-clock string read by
  the classifier in iteration \<open>i\<close>.
\<close>

function replay :: "(nat \<Rightarrow> string) \<Rightarrow> trade list \<Rightarrow> int \<Rightarrow> nat \<Rightarrow> loopVars \<Rightarrow> loopVars" where
  "replay clock sortedTrades limit i l =
     (if i < length sortedTrades \<and> int (length (l_history l)) < limit then
        (let t = sortedTrades ! i;
             recentTrades = slice (nat (max 0 (int i - 4))) (i + 1) sortedTrades;
             st = analyzePsychologicalState (clock i) recentTrades
         in replay clock sortedTrades limit (i + 1)
              (if significant (l_lastState l) st then recordEvent t st l else l))
      else l)"
  by pat_completeness auto
termination
  by (relation "measure (\<lambda>(clock, sortedTrades, limit, i, l). length sortedTrades - i)") auto

declare replay.simps [simp del]

text \<open>The locals before the first iteration.\<close>

definition initialLoop :: loopVars where
  "initialLoop = \<lparr>l_history = [], l_states = [], l_confidences = [], l_lastState = None,
                    l_stateChangeCount = 0\<rparr>"

definition averageOf :: "int list \<Rightarrow> int" where
  "averageOf confidences =
     (if length confidences > 0 then
        Math_round (real_of_int (foldl (\<lambda>sum conf. sum + conf) 0 confidences)
                    / real (length confidences))
      else 50)"

definition varianceOf :: "int list \<Rightarrow> real" where
  "varianceOf confidences =
     (if length confidences > 0 then
        foldl (\<lambda>sum conf. sum + (real_of_int conf - real_of_int (averageOf confidences))\<^sup>2)
          0 confidences / real (length confidences)
      else 0)"

definition volatilityOf :: "int list \<Rightarrow> real" where
  "volatilityOf confidences =
     real_of_int (Math_round (sqrt (varianceOf confidences) / 100 * 100)) / 100"

text \<open>
  The trades are sorted by entry time with the stable \<^verbatim>\<open>Array.prototype.sort\<close>.
\<close>

definition analyzeStateHistory ::
  "(nat \<Rightarrow> string) \<Rightarrow> trade list \<Rightarrow> int \<Rightarrow> error + StateHistoryResult" where
  "analyzeStateHistory clock trades limit =
     (if length trades = 0 then
        Inr \<lparr>history = [],
             summary = \<lparr>totalChanges = 0, mostCommonState = ''NEUTRAL'',
                        averageConfidence = 50, volatility = 0\<rparr>\<rparr>
      else
        (let sortedTrades = sort_key entryTime trades;
             l = replay clock sortedTrades limit 0 initialLoop
         in case maxKey (countKeys (l_states l)) of
              Inl e \<Rightarrow> Inl e
            | Inr common \<Rightarrow>
                Inr \<lparr>history = slice0 limit (l_history l),
                     summary = \<lparr>totalChanges = l_stateChangeCount l,
                                mostCommonState = common,
                                averageConfidence = averageOf (l_confidences l),
                                volatility = volatilityOf (l_confidences l)\<rparr>\<rparr>))"

section \<open>Risk metrics of the dashboard\<close>

record RiskMetrics =
  averageRiskPerTrade :: real
  r_maxDrawdown :: real
  sharpeRatio :: real

text \<open>
  The locals \<^verbatim>\<open>peak, maxDrawdown, runningPnL\<close> of the drawdown loop, in this order,
  all starting at 0.
\<close>

definition drawdownStep :: "real \<times> real \<times> real \<Rightarrow> trade \<Rightarrow> real \<times> real \<times> real" where
  "drawdownStep acc t =
     (case acc of (peak, maxDD, runningPnL) \<Rightarrow>
        (let runningPnL' = runningPnL + profitLoss t;
             peak' = (if runningPnL' > peak then runningPnL' else peak);
             drawdown = peak' - runningPnL';
             maxDD' = (if drawdown > maxDD then drawdown else maxDD)
         in (peak', maxDD', runningPnL')))"

definition maxDrawdown :: "trade list \<Rightarrow> real" where
  "maxDrawdown trades = fst (snd (foldl drawdownStep (0, 0, 0) trades))"

definition sharpe :: "trade list \<Rightarrow> real" where
  "sharpe trades =
     (let returns = map profitLoss trades;
          avgReturn = foldl (\<lambda>sum r. sum + r) 0 returns / real (length returns);
          variance = foldl (\<lambda>sum r. sum + (r - avgReturn)\<^sup>2) 0 returns / real (length returns);
          stdDev = sqrt variance
      in if stdDev > 0 then avgReturn / stdDev else 0)"

definition calculateRiskMetrics :: "trade list \<Rightarrow> RiskMetrics" where
  "calculateRiskMetrics trades =
     (if length trades = 0 then
        \<lparr>averageRiskPerTrade = 0, r_maxDrawdown = 0, sharpeRatio = 0\<rparr>
      else
        \<lparr>averageRiskPerTrade = round2 (avgRisk trades),
         r_maxDrawdown = round2 (maxDrawdown trades),
         sharpeRatio = round2 (sharpe trades)\<rparr>)"

section \<open>Reference notions the properties are stated with\<close>

text \<open>The distinct elements of a list, in the order of their first occurrence.\<close>

fun firstOccurrences :: "'a list \<Rightarrow> 'a list" where
  "firstOccurrences [] = []"
| "firstOccurrences (x # xs) = x # filter (\<lambda>y. y \<noteq> x) (firstOccurrences xs)"

text \<open>
  The population standard deviation: the root of the mean squared distance from the
  exact arithmetic mean, dividing by the number of values.
\<close>

definition mean :: "real list \<Rightarrow> real" where
  "mean xs = sum_list xs / real (length xs)"

definition stdDev :: "real list \<Rightarrow> real" where
  "stdDev xs = sqrt (sum_list (map (\<lambda>x. (x - mean xs)\<^sup>2) xs) / real (length xs))"

text \<open>
  The cumulative profit and loss after each trade of a list taken in its given order,
  the highest cumulative value reached so far (counted from 0, before any trade), and
  the distance of the cumulative value below it.
\<close>

definition runningTotals :: "trade list \<Rightarrow> real list" where
  "runningTotals trades =
     map (\<lambda>k. sum_list (map profitLoss (take (Suc k) trades))) [0..<length trades]"

definition runningPeaks :: "trade list \<Rightarrow> real list" where
  "runningPeaks trades =
     map (\<lambda>k. Max (set (0 # take (Suc k) (runningTotals trades)))) [0..<length trades]"

definition drawdowns :: "trade list \<Rightarrow> real list" where
  "drawdowns trades = map (\<lambda>(p, r). p - r) (zip (runningPeaks trades) (runningTotals trades))"

text \<open>
  The loop's bookkeeping agrees with its history: one count, one state and one
  confidence per recorded event.
\<close>

definition consistent :: "loopVars \<Rightarrow> bool" where
  "consistent l \<longleftrightarrow>
     l_stateChangeCount l = length (l_history l) \<and>
     map h_state (l_history l) = l_states l \<and>
     map h_confidence (l_history l) = l_confidences l"

section \<open>Sample inputs\<close>

definition sampleTrade :: "nat \<Rightarrow> int \<Rightarrow> real \<Rightarrow> real \<Rightarrow> trade" where
  "sampleTrade i time risk pl =
     \<lparr>tradeId = i, entryTime = time, riskPercentUsed = risk, profitLoss = pl,
      riskRewardAchieved = 1, session = LONDON, stopLossHit = False, exitedEarly = False,
      targetPercentAchieved = 100\<rparr>"

definition sessionTrade :: "session \<Rightarrow> trade" where
  "sessionTrade s =
     \<lparr>tradeId = 0, entryTime = 0, riskPercentUsed = 2, profitLoss = 10,
      riskRewardAchieved = 1, session = s, stopLossHit = False, exitedEarly = False,
      targetPercentAchieved = 100\<rparr>"

definition epoch :: "nat \<Rightarrow> string" where
  "epoch i = ''1970-01-01T00:00:00.000Z''"

section \<open>Properties of the state classifier\<close>

lemma foldl_add_sum_list:
  "foldl (\<lambda>sum t. sum + f t) a xs = a + sum_list (map f xs)"
  for a :: "'a::monoid_add"
  by (induction xs arbitrary: a) (simp_all add: add.assoc)

lemma winningTrades_le: "winningTrades trades \<le> length trades"
  by (simp add: winningTrades_def)

lemma winRate_bounds: "0 \<le> winRate trades \<and> winRate trades \<le> 100"
proof (cases "length trades > 0")
  case True
  have "real (winningTrades trades) \<le> real (length trades)"
    using winningTrades_le by simp
  then have "real (winningTrades trades) * 100 / real (length trades) \<le> 100"
    using True by (simp add: divide_le_eq)
  then show ?thesis using True by (simp add: winRate_def)
next
  case False
  then show ?thesis by (simp add: winRate_def)
qed

lemma defaultRule_keeps:
  "v_state (defaultRule v) = v_state v"
  "v_confidence (defaultRule v) = v_confidence v"
  "v_riskTolerance (defaultRule v) = v_riskTolerance v"
  "v_emotionalBalance (defaultRule v) = v_emotionalBalance v"
  "set (v_recommendations v) \<subseteq> set (v_recommendations (defaultRule v))"
  by (auto simp: defaultRule_def)

lemma targetRule_keeps:
  "v_state (targetRule trades v) = v_state v"
  "v_confidence (targetRule trades v) = v_confidence v"
  "v_riskTolerance (targetRule trades v) = v_riskTolerance v"
  "v_emotionalBalance (targetRule trades v) = v_emotionalBalance v"
  "set (v_recommendations v) \<subseteq> set (v_recommendations (targetRule trades v))"
  by (auto simp: targetRule_def)

lemma stopLossRule_keeps:
  "v_state (stopLossRule trades v) = v_state v"
  "v_confidence (stopLossRule trades v) = v_confidence v"
  "v_riskTolerance (stopLossRule trades v) = v_riskTolerance v"
  "set (v_recommendations v) \<subseteq> set (v_recommendations (stopLossRule trades v))"
  by (auto simp: stopLossRule_def)

lemma earlyExitRule_keeps:
  "v_state (earlyExitRule trades v) = v_state v"
  "v_confidence (earlyExitRule trades v) = v_confidence v"
  "v_riskTolerance (earlyExitRule trades v) = v_riskTolerance v"
  "set (v_recommendations v) \<subseteq> set (v_recommendations (earlyExitRule trades v))"
  by (auto simp: earlyExitRule_def)

lemma riskRule_keeps:
  "v_confidence (riskRule trades v) = v_confidence v"
  "v_emotionalBalance (riskRule trades v) = v_emotionalBalance v"
  by (simp_all add: riskRule_def)

lemma winRateRule_keeps:
  "v_emotionalBalance (winRateRule trades v) = v_emotionalBalance v"
  by (simp add: winRateRule_def)

lemmas rule_keeps = defaultRule_keeps(1-4) targetRule_keeps(1-4) stopLossRule_keeps(1-3)
  earlyExitRule_keeps(1-3) riskRule_keeps winRateRule_keeps

lemma classify_state:
  "v_state (classify trades) =
     (if avgRiskUsed trades > 3 then ''GREEDY''
      else if avgRiskUsed trades < 1 then ''FEARFUL''
      else if winRate trades \<ge> 70 then ''CONFIDENT''
      else if winRate trades \<le> 30 then ''FRUSTRATED'' else ''NEUTRAL'')"
  by (simp add: classify_def rule_keeps riskRule_def winRateRule_def initialVars_def)

lemma classify_confidence:
  "v_confidence (classify trades) =
     (if winRate trades \<ge> 70 then min 95 (50 + (winRate trades - 50) * 0.9)
      else if winRate trades \<le> 30 then max 20 (50 - (50 - winRate trades) * 0.6) else 50)"
  by (simp add: classify_def rule_keeps winRateRule_def initialVars_def)

lemma classify_riskTolerance:
  "v_riskTolerance (classify trades) =
     (if avgRiskUsed trades > 3 then min 90 (v_riskTolerance (winRateRule trades initialVars) + 20)
      else if avgRiskUsed trades < 1
        then max 10 (v_riskTolerance (winRateRule trades initialVars) - 20)
      else v_riskTolerance (winRateRule trades initialVars))"
  by (simp add: classify_def rule_keeps riskRule_def)

lemma winRateRule_riskTolerance:
  "v_riskTolerance (winRateRule trades initialVars) =
     (if winRate trades \<ge> 70 then min 80 (50 + (winRate trades - 50) * 0.6)
      else if winRate trades \<le> 30 then max 20 (50 - (50 - winRate trades) * 0.6)
      else 50)"
  by (simp add: winRateRule_def initialVars_def)

lemma classify_emotionalBalance:
  "v_emotionalBalance (classify trades) \<in> {50, 30, 35}"
  by (simp add: classify_def rule_keeps stopLossRule_def earlyExitRule_def initialVars_def)

lemma riskRule_recommendation:
  assumes "avgRiskUsed trades > 3"
  shows "''Reduce risk per trade'' \<in> set (v_recommendations (classify trades))"
proof -
  have "''Reduce risk per trade''
      \<in> set (v_recommendations (riskRule trades (winRateRule trades initialVars)))"
    using assms by (simp add: riskRule_def)
  then show ?thesis
    unfolding classify_def
    using defaultRule_keeps(5) targetRule_keeps(5) stopLossRule_keeps(4) earlyExitRule_keeps(4)
    by blast
qed

text \<open>
  Claim C1. The risk-usage rule runs after the win-rate rule and overwrites its state:
  a non-empty trade list with a win rate of 100 and an average risk of 5 is classified
  GREEDY, with a risk tolerance above 50 and the recommendation to reduce risk, and a
  non-empty trade list with a win rate of 0 and an average risk of 0.5 is classified
  FEARFUL, not FRUSTRATED.
\<close>

theorem rule_precedence:
  "(trades \<noteq> [] \<and> winRate trades = 100 \<and> avgRiskUsed trades = 5 \<longrightarrow>
      state (analyzePsychologicalState now trades) = ''GREEDY'' \<and>
      riskTolerance (analyzePsychologicalState now trades) > 50 \<and>
      ''Reduce risk per trade'' \<in> set (recommendations (analyzePsychologicalState now trades)))
   \<and> (trades \<noteq> [] \<and> winRate trades = 0 \<and> avgRiskUsed trades = 1 / 2 \<longrightarrow>
      state (analyzePsychologicalState now trades) = ''FEARFUL'')"
  by (simp add: analyzePsychologicalState_def Let_def classify_state classify_riskTolerance
      winRateRule_riskTolerance riskRule_recommendation Math_round_def)

theorem rule_precedence_witness:
  "[sampleTrade 101 1 5 100] \<noteq> [] \<and>
   winRate [sampleTrade 101 1 5 100] = 100 \<and>
   avgRiskUsed [sampleTrade 101 1 5 100] = 5 \<and>
   state (analyzePsychologicalState (epoch 0) [sampleTrade 101 1 5 100]) = ''GREEDY'' \<and>
   riskTolerance (analyzePsychologicalState (epoch 0) [sampleTrade 101 1 5 100]) > 50 \<and>
   ''Reduce risk per trade''
     \<in> set (recommendations (analyzePsychologicalState (epoch 0) [sampleTrade 101 1 5 100])) \<and>
   [sampleTrade 102 1 (1 / 2) (- 100)] \<noteq> [] \<and>
   winRate [sampleTrade 102 1 (1 / 2) (- 100)] = 0 \<and>
   avgRiskUsed [sampleTrade 102 1 (1 / 2) (- 100)] = 1 / 2 \<and>
   state (analyzePsychologicalState (epoch 0) [sampleTrade 102 1 (1 / 2) (- 100)]) = ''FEARFUL''"
proof -
  have a: "winRate [sampleTrade 101 1 5 100] = 100 \<and> avgRiskUsed [sampleTrade 101 1 5 100] = 5"
    by (simp add: winRate_def winningTrades_def avgRiskUsed_def sampleTrade_def)
  have b: "winRate [sampleTrade 102 1 (1 / 2) (- 100)] = 0 \<and>
           avgRiskUsed [sampleTrade 102 1 (1 / 2) (- 100)] = 1 / 2"
    by (simp add: winRate_def winningTrades_def avgRiskUsed_def sampleTrade_def)
  show ?thesis
    using a b rule_precedence [of "[sampleTrade 101 1 5 100]" "epoch 0"]
      rule_precedence [of "[sampleTrade 102 1 (1 / 2) (- 100)]" "epoch 0"]
    by simp
qed

lemma Math_round_bounds:
  "real_of_int a \<le> x \<Longrightarrow> x \<le> real_of_int b \<Longrightarrow> a \<le> Math_round x \<and> Math_round x \<le> b"
  unfolding Math_round_def by (simp add: le_floor_iff floor_le_iff)


lemma rawProbability_sum:
  "rawProbability trades =
     50 + (if sessionWinRate trades \<ge> 60 then 20
           else if sessionWinRate trades \<le> 40 then - 20 else 0)
        + (if avgProfit trades > 0 then 15 else - 15)
        + (if avgRisk trades \<le> 2 then 10 else - 10)"
  by (simp add: rawProbability_def forecastFactors_def riskFactor_def profitFactor_def
      winRateFactor_def)

lemma rawProbability_bounds: "5 \<le> rawProbability trades \<and> rawProbability trades \<le> 95"
  by (simp add: rawProbability_sum)

lemma classifier_confidence_bounds:
  "20 \<le> v_confidence (classify trades) \<and> v_confidence (classify trades) \<le> 95"
  using winRate_bounds [of trades] by (auto simp: classify_confidence field_simps)

lemma classifier_riskTolerance_bounds:
  "10 \<le> v_riskTolerance (classify trades) \<and> v_riskTolerance (classify trades) \<le> 90"
  using winRate_bounds [of trades]
  by (auto simp: classify_riskTolerance winRateRule_riskTolerance field_simps)

lemma classifier_emotionalBalance_bounds:
  "30 \<le> v_emotionalBalance (classify trades) \<and> v_emotionalBalance (classify trades) \<le> 50"
  using classify_emotionalBalance [of trades] by auto

text \<open>
  Claim C4. For every trade list the classifier's confidence, risk tolerance and
  emotional balance are integers between 0 and 100, and for every trade list and
  session the forecaster's probability is between 0 and 100.
\<close>

theorem score_bounds:
  "0 \<le> confidence (analyzePsychologicalState now trades) \<and>
   confidence (analyzePsychologicalState now trades) \<le> 100 \<and>
   0 \<le> riskTolerance (analyzePsychologicalState now trades) \<and>
   riskTolerance (analyzePsychologicalState now trades) \<le> 100 \<and>
   0 \<le> emotionalBalance (analyzePsychologicalState now trades) \<and>
   emotionalBalance (analyzePsychologicalState now trades) \<le> 100 \<and>
   0 \<le> probability (analyzeSessionForecast trades sess) \<and>
   probability (analyzeSessionForecast trades sess) \<le> 100"
proof -
  have c: "20 \<le> Math_round (v_confidence (classify trades)) \<and>
           Math_round (v_confidence (classify trades)) \<le> 95"
    using classifier_confidence_bounds [of trades] by (intro Math_round_bounds) simp_all
  have r: "10 \<le> Math_round (v_riskTolerance (classify trades)) \<and>
           Math_round (v_riskTolerance (classify trades)) \<le> 90"
    using classifier_riskTolerance_bounds [of trades] by (intro Math_round_bounds) simp_all
  have e: "30 \<le> Math_round (v_emotionalBalance (classify trades)) \<and>
           Math_round (v_emotionalBalance (classify trades)) \<le> 50"
    using classifier_emotionalBalance_bounds [of trades] by (intro Math_round_bounds) simp_all
  show ?thesis
    using c r e by (simp add: analyzePsychologicalState_def analyzeSessionForecast_def Let_def)
qed

section \<open>Properties of the session forecaster\<close>

text \<open>
  Claim C8. For every non-empty trade list the probability before the clamp is 50 plus
  a win-rate adjustment of 20, 0 or -20, a profit adjustment of 15 or -15 and a risk
  adjustment of 10 or -10; it lies between 5 and 95, so the clamp to the range from 0
  to 100 returns it unchanged.
\<close>

theorem probability_unclamped:
  "trades \<noteq> [] \<Longrightarrow>
     rawProbability trades =
       50 + (if sessionWinRate trades \<ge> 60 then 20
             else if sessionWinRate trades \<le> 40 then - 20 else 0)
          + (if avgProfit trades > 0 then 15 else - 15)
          + (if avgRisk trades \<le> 2 then 10 else - 10) \<and>
     5 \<le> rawProbability trades \<and> rawProbability trades \<le> 95 \<and>
     probability (analyzeSessionForecast trades sess) = rawProbability trades"
  using rawProbability_bounds [of trades] rawProbability_sum [of trades]
  by (simp add: analyzeSessionForecast_def Let_def)

theorem probability_unclamped_witness:
  "[sampleTrade 101 1 2 100] \<noteq> [] \<and>
   rawProbability [sampleTrade 101 1 2 100] = 95 \<and>
   probability (analyzeSessionForecast [sampleTrade 101 1 2 100] ''ny'') = 95"
  using probability_unclamped [of "[sampleTrade 101 1 2 100]" "''ny''"]
  by (simp add: sessionWinRate_def winningTrades_def avgProfit_def avgRisk_def sampleTrade_def)

section \<open>Properties of the insight generator\<close>

text \<open>
  Claim C3. Called with no trades, the generator returns the single OPPORTUNITY insight
  "No trading data available for analysis" with confidence 100 and impact LOW, no
  patterns and the recommendation to start trading. The wrapper
  \<^verbatim>\<open>getPerformanceInsights\<close> hands the empty query result to the generator and returns
  that same result: its insights are not empty and it has no summary field.
\<close>

theorem wrapper_empty_insights:
  "analyzePerformanceInsights [] per =
     Inr \<lparr>period = per,
          insights = [\<lparr>i_type = ''OPPORTUNITY'',
                       description = ''No trading data available for analysis'',
                       i_confidence = 100, i_impact = ''LOW''\<rparr>],
          patterns = [],
          pi_recommendations = [''Start trading to generate performance insights'']\<rparr> \<and>
   getPerformanceInsights [] per = analyzePerformanceInsights [] per"
  by (simp add: getPerformanceInsights_def analyzePerformanceInsights_def)

section \<open>Properties of the drawdown loop\<close>

lemma length_runningTotals [simp]: "length (runningTotals trades) = length trades"
  by (simp add: runningTotals_def)

lemma length_runningPeaks [simp]: "length (runningPeaks trades) = length trades"
  by (simp add: runningPeaks_def)

lemma runningTotals_snoc:
  "runningTotals (trades @ [t]) =
     runningTotals trades @ [sum_list (map profitLoss trades) + profitLoss t]"
  by (simp add: runningTotals_def)

lemma runningPeaks_snoc:
  "runningPeaks (trades @ [t]) =
     runningPeaks trades @ [Max (set (0 # runningTotals (trades @ [t])))]"
  by (simp add: runningPeaks_def runningTotals_snoc)

lemma drawdowns_snoc:
  "drawdowns (trades @ [t]) =
     drawdowns trades @
       [Max (set (0 # runningTotals (trades @ [t])))
          - (sum_list (map profitLoss trades) + profitLoss t)]"
  by (simp add: drawdowns_def runningPeaks_snoc runningTotals_snoc)

lemma Max_snoc: "Max (set (a # xs @ [y])) = max (Max (set (a # xs))) y"
  for a :: "'a::linorder"
proof -
  have "Max (insert y (set (a # xs))) = max y (Max (set (a # xs)))"
    by (rule Max_insert) simp_all
  moreover have "set (a # xs @ [y]) = insert y (set (a # xs))" by auto
  ultimately show ?thesis by (simp only: max.commute)
qed

lemma drawdownStep_max:
  "drawdownStep (p, m, r) t =
     (max p (r + profitLoss t), max m (max p (r + profitLoss t) - (r + profitLoss t)),
      r + profitLoss t)"
  by (simp add: drawdownStep_def Let_def max_def)

lemma drawdown_loop:
  "foldl drawdownStep (0, 0, 0) trades =
     (Max (set (0 # runningTotals trades)), Max (set (0 # drawdowns trades)),
      sum_list (map profitLoss trades))"
proof (induction trades rule: rev_induct)
  case Nil
  show ?case by (simp add: runningTotals_def drawdowns_def runningPeaks_def)
next
  case (snoc t trades)
  let ?r = "sum_list (map profitLoss trades) + profitLoss t"
  let ?p = "Max (set (0 # runningTotals trades))"
  let ?m = "Max (set (0 # drawdowns trades))"
  have peak: "Max (set (0 # runningTotals (trades @ [t]))) = max ?p ?r"
    by (simp only: runningTotals_snoc Max_snoc)
  have dd: "Max (set (0 # drawdowns (trades @ [t]))) = max ?m (max ?p ?r - ?r)"
    by (simp only: drawdowns_snoc Max_snoc peak)
  have total: "sum_list (map profitLoss (trades @ [t])) = ?r"
    by simp
  have "foldl drawdownStep (0, 0, 0) (trades @ [t])
      = drawdownStep (?p, ?m, sum_list (map profitLoss trades)) t"
    by (simp only: foldl_append foldl.simps snoc.IH)
  also have "\<dots> = (max ?p ?r, max ?m (max ?p ?r - ?r), ?r)"
    by (rule drawdownStep_max)
  finally show ?case by (simp only: peak dd total)
qed

lemma maxDrawdown_Max0: "maxDrawdown trades = Max (set (0 # drawdowns trades))"
  by (simp add: maxDrawdown_def drawdown_loop)

lemma drawdowns_nonneg: "d \<in> set (drawdowns trades) \<Longrightarrow> 0 \<le> d"
proof (induction trades rule: rev_induct)
  case Nil
  then show ?case by (simp add: drawdowns_def runningPeaks_def)
next
  case (snoc t trades)
  have "sum_list (map profitLoss trades) + profitLoss t
      \<le> Max (set (0 # runningTotals (trades @ [t])))"
    by (rule Max_ge) (simp_all add: runningTotals_snoc)
  then have "0 \<le> Max (set (0 # runningTotals (trades @ [t])))
      - (sum_list (map profitLoss trades) + profitLoss t)"
    by (simp only: diff_ge_0_iff_ge)
  moreover have "d \<in> set (drawdowns trades) \<or>
      d = Max (set (0 # runningTotals (trades @ [t])))
        - (sum_list (map profitLoss trades) + profitLoss t)"
    using snoc.prems by (simp only: drawdowns_snoc set_append list.set) blast
  ultimately show ?case using snoc.IH by blast
qed

lemma length_drawdowns [simp]: "length (drawdowns trades) = length trades"
  by (simp add: drawdowns_def)

lemma maxDrawdown_Max:
  assumes "trades \<noteq> []"
  shows "maxDrawdown trades = Max (set (drawdowns trades))"
proof -
  have ne: "drawdowns trades \<noteq> []"
    using assms length_drawdowns [of trades] by (metis length_0_conv)
  then have d: "hd (drawdowns trades) \<in> set (drawdowns trades)" by simp
  have "0 \<le> hd (drawdowns trades)" using d by (rule drawdowns_nonneg)
  also have "hd (drawdowns trades) \<le> Max (set (drawdowns trades))" using d by simp
  finally have "max 0 (Max (set (drawdowns trades))) = Max (set (drawdowns trades))"
    by simp
  moreover have "Max (set (0 # drawdowns trades)) = max 0 (Max (set (drawdowns trades)))"
    using ne by (simp only: list.set) (rule Max_insert, simp_all)
  ultimately show ?thesis by (simp only: maxDrawdown_Max0)
qed

lemma peaks_never_positive:
  assumes "\<forall>x\<in>set (runningTotals trades). x \<le> 0"
  shows "runningPeaks trades = replicate (length trades) 0"
proof -
  have "Max (set (0 # take (Suc k) (runningTotals trades))) = 0" for k
  proof (rule Max_eqI)
    fix y assume "y \<in> set (0 # take (Suc k) (runningTotals trades))"
    then have "y = 0 \<or> y \<in> set (runningTotals trades)"
      by (auto dest: in_set_takeD)
    then show "y \<le> 0" using assms by auto
  qed simp_all
  then show ?thesis
    by (simp add: runningPeaks_def map_replicate_const)
qed

lemma drawdowns_never_positive:
  assumes "\<forall>x\<in>set (runningTotals trades). x \<le> 0"
  shows "drawdowns trades = map uminus (runningTotals trades)"
  by (rule nth_equalityI) (simp_all add: drawdowns_def peaks_never_positive [OF assms])

lemma maxDrawdown_never_positive:
  assumes "trades \<noteq> []" and "\<forall>x\<in>set (runningTotals trades). x \<le> 0"
  shows "maxDrawdown trades = \<bar>Min (set (runningTotals trades))\<bar>"
proof -
  have ne: "set (runningTotals trades) \<noteq> {}"
    using assms(1) length_runningTotals [of trades] by (metis length_0_conv set_empty)
  have "Min (set (runningTotals trades)) \<in> set (runningTotals trades)"
    using ne by (intro Min_in) simp_all
  then have neg: "Min (set (runningTotals trades)) \<le> 0" using assms(2) by blast
  have "maxDrawdown trades = Max (set (map uminus (runningTotals trades)))"
    by (simp only: maxDrawdown_Max [OF assms(1)] drawdowns_never_positive [OF assms(2)])
  also have "\<dots> = Max (uminus ` set (runningTotals trades))" by (simp only: set_map)
  also have "\<dots> = - Min (set (runningTotals trades))"
    using minus_Min_eq_Max [OF finite_set ne] by simp
  finally show ?thesis using neg by simp
qed

text \<open>
  Claim C7. The drawdown loop takes the trades in the order given: it accumulates the
  running total and the running peak, the drawdown of a step is the peak minus the
  running total, and the result is the largest drawdown of all steps; the reported
  value is that result rounded to two decimals. For the profit and loss sequence
  100, -150, 50 the running totals are 100, -50, 0, the peaks 100, 100, 100, the
  drawdowns 0, 150, 100, and the result is 150.
\<close>

theorem maxDrawdown_given_order:
  "(trades \<noteq> [] \<longrightarrow>
      maxDrawdown trades = Max (set (drawdowns trades)) \<and>
      r_maxDrawdown (calculateRiskMetrics trades) = round2 (maxDrawdown trades)) \<and>
   runningTotals [sampleTrade 101 1 2 100, sampleTrade 102 2 2 (- 150), sampleTrade 103 3 2 50]
     = [100, - 50, 0] \<and>
   runningPeaks [sampleTrade 101 1 2 100, sampleTrade 102 2 2 (- 150), sampleTrade 103 3 2 50]
     = [100, 100, 100] \<and>
   drawdowns [sampleTrade 101 1 2 100, sampleTrade 102 2 2 (- 150), sampleTrade 103 3 2 50]
     = [0, 150, 100] \<and>
   maxDrawdown [sampleTrade 101 1 2 100, sampleTrade 102 2 2 (- 150), sampleTrade 103 3 2 50]
     = 150 \<and>
   r_maxDrawdown (calculateRiskMetrics
     [sampleTrade 101 1 2 100, sampleTrade 102 2 2 (- 150), sampleTrade 103 3 2 50]) = 150"
proof -
  let ?ex = "[sampleTrade 101 1 2 100, sampleTrade 102 2 2 (- 150), sampleTrade 103 3 2 50]"
  have totals: "runningTotals ?ex = [100, - 50, 0]"
    by (simp add: runningTotals_def sampleTrade_def upt_rec)
  have peaks: "runningPeaks ?ex = [100, 100, 100]"
    by (simp add: runningPeaks_def upt_rec) (simp add: totals)
  have dds: "drawdowns ?ex = [0, 150, 100]"
    by (simp add: drawdowns_def totals peaks)
  have md: "maxDrawdown ?ex = 150"
    by (simp add: maxDrawdown_def drawdownStep_def sampleTrade_def Let_def)
  have rm: "r_maxDrawdown (calculateRiskMetrics ?ex) = 150"
    by (simp add: calculateRiskMetrics_def round2_def Math_round_def) (simp add: md)
  have gen: "trades \<noteq> [] \<longrightarrow>
      maxDrawdown trades = Max (set (drawdowns trades)) \<and>
      r_maxDrawdown (calculateRiskMetrics trades) = round2 (maxDrawdown trades)"
    by (simp add: maxDrawdown_Max calculateRiskMetrics_def)
  show ?thesis using totals peaks dds md rm gen by blast
qed

theorem maxDrawdown_given_order_witness:
  "[sampleTrade 101 1 2 100, sampleTrade 102 2 2 (- 150)] \<noteq> [] \<and>
   drawdowns [sampleTrade 101 1 2 100, sampleTrade 102 2 2 (- 150)] = [0, 150] \<and>
   maxDrawdown [sampleTrade 101 1 2 100, sampleTrade 102 2 2 (- 150)] = 150 \<and>
   r_maxDrawdown (calculateRiskMetrics [sampleTrade 101 1 2 100, sampleTrade 102 2 2 (- 150)])
     = 150"
proof -
  let ?ex = "[sampleTrade 101 1 2 100, sampleTrade 102 2 2 (- 150)]"
  have totals: "runningTotals ?ex = [100, - 50]"
    by (simp add: runningTotals_def sampleTrade_def upt_rec)
  have peaks: "runningPeaks ?ex = [100, 100]"
    by (simp add: runningPeaks_def upt_rec) (simp add: totals)
  have dds: "drawdowns ?ex = [0, 150]"
    by (simp add: drawdowns_def totals peaks)
  have "maxDrawdown ?ex = 150 \<and> r_maxDrawdown (calculateRiskMetrics ?ex) = round2 150"
    using maxDrawdown_given_order [of ?ex] by (simp add: dds)
  then show ?thesis using dds by (simp add: round2_def Math_round_def)
qed

text \<open>
  Claim C9, amended. The running peak starts at 0, not at the first running total, so
  for every non-empty trade list whose cumulative profit and loss is never positive the
  loop's maximum drawdown is the absolute value of the lowest cumulative value, and the
  reported value is that number rounded to two decimals.
\<close>

theorem drawdown_never_positive:
  "trades \<noteq> [] \<Longrightarrow> \<forall>x\<in>set (runningTotals trades). x \<le> 0 \<Longrightarrow>
     maxDrawdown trades = \<bar>Min (set (runningTotals trades))\<bar> \<and>
     r_maxDrawdown (calculateRiskMetrics trades)
       = round2 \<bar>Min (set (runningTotals trades))\<bar>"
  by (simp add: maxDrawdown_never_positive calculateRiskMetrics_def)

theorem drawdown_never_positive_witness:
  "[sampleTrade 101 1 2 (- 100), sampleTrade 102 2 2 50] \<noteq> [] \<and>
   runningTotals [sampleTrade 101 1 2 (- 100), sampleTrade 102 2 2 50] = [- 100, - 50] \<and>
   maxDrawdown [sampleTrade 101 1 2 (- 100), sampleTrade 102 2 2 50] = 100 \<and>
   r_maxDrawdown (calculateRiskMetrics [sampleTrade 101 1 2 (- 100), sampleTrade 102 2 2 50])
     = 100"
proof -
  let ?ex = "[sampleTrade 101 1 2 (- 100), sampleTrade 102 2 2 50]"
  have totals: "runningTotals ?ex = [- 100, - 50]"
    by (simp add: runningTotals_def sampleTrade_def upt_rec)
  have "maxDrawdown ?ex = 100 \<and> r_maxDrawdown (calculateRiskMetrics ?ex) = round2 100"
    using drawdown_never_positive [of ?ex] by (simp add: totals)
  then show ?thesis using totals by (simp add: round2_def Math_round_def)
qed

text \<open>
  Claim C9 as stated, with the reported value equal to the unrounded absolute value,
  fails for a single trade losing a tenth of a cent: the cumulative profit and loss is
  -0.001, never positive, and the reported maximum drawdown is 0.
\<close>

theorem reported_drawdown_counterexample:
  "runningTotals [sampleTrade 101 1 2 (- (1 / 1000))] = [- (1 / 1000)] \<and>
   \<bar>Min (set (runningTotals [sampleTrade 101 1 2 (- (1 / 1000))]))\<bar> = 1 / 1000 \<and>
   r_maxDrawdown (calculateRiskMetrics [sampleTrade 101 1 2 (- (1 / 1000))]) = 0"
proof -
  have totals: "runningTotals [sampleTrade 101 1 2 (- (1 / 1000))] = [- (1 / 1000)]"
    by (simp add: runningTotals_def sampleTrade_def)
  have "r_maxDrawdown (calculateRiskMetrics [sampleTrade 101 1 2 (- (1 / 1000))]) = 0"
    by (simp add: calculateRiskMetrics_def maxDrawdown_def drawdownStep_def sampleTrade_def
        round2_def Math_round_def Let_def)
  then show ?thesis by (simp add: totals)
qed

section \<open>Properties of counting and of the maximising reduce\<close>

lemma Object_keys_bump:
  "Object_keys (bump counts k) =
     (if k \<in> set (Object_keys counts) then Object_keys counts else Object_keys counts @ [k])"
proof (cases "map_of counts k")
  case None
  then have "k \<notin> set (Object_keys counts)"
    by (simp add: Object_keys_def map_of_eq_None_iff)
  then show ?thesis by (simp add: bump_def None) (simp add: Object_keys_def)
next
  case (Some c)
  then have "k \<in> fst ` set counts" by (metis map_of_eq_None_iff option.distinct(1))
  moreover have "map fst (map (\<lambda>(k', c'). if k' = k then (k', c' + 1) else (k', c')) counts)
      = map fst counts"
    by (induction counts) auto
  ultimately show ?thesis using Some by (simp add: bump_def Object_keys_def)
qed

lemma lookup_bump:
  "lookup (bump counts k) k' = lookup counts k' + (if k' = k then 1 else 0)"
proof (cases "map_of counts k")
  case None
  then show ?thesis
    by (auto simp: bump_def lookup_def map_add_def split: option.splits)
next
  case (Some c)
  have "map_of (map (\<lambda>(k', c'). if k' = k then (k', c' + 1) else (k', c')) counts) k'
      = (case map_of counts k' of None \<Rightarrow> None
         | Some c' \<Rightarrow> Some (if k' = k then c' + 1 else c'))"
    by (induction counts) auto
  then show ?thesis using Some by (auto simp: bump_def lookup_def split: option.splits)
qed

lemma Object_keys_foldl_bump:
  "Object_keys (foldl bump counts ks) =
     Object_keys counts @ filter (\<lambda>y. y \<notin> set (Object_keys counts)) (firstOccurrences ks)"
proof (induction ks arbitrary: counts)
  case Nil
  show ?case by simp
next
  case (Cons k ks)
  show ?case
  proof (cases "k \<in> set (Object_keys counts)")
    case True
    have "filter (\<lambda>y. y \<notin> set (Object_keys counts)) (filter (\<lambda>y. y \<noteq> k) (firstOccurrences ks))
        = filter (\<lambda>y. y \<notin> set (Object_keys counts)) (firstOccurrences ks)"
      using True by (auto intro: filter_cong)
    then show ?thesis using True by (simp add: Cons.IH Object_keys_bump)
  next
    case False
    have "filter (\<lambda>y. y \<notin> set (Object_keys counts @ [k])) (firstOccurrences ks)
        = filter (\<lambda>y. y \<notin> set (Object_keys counts)) (filter (\<lambda>y. y \<noteq> k) (firstOccurrences ks))"
      by (auto intro: filter_cong)
    then show ?thesis using False by (simp add: Cons.IH Object_keys_bump)
  qed
qed

lemma Object_keys_Nil: "Object_keys [] = []"
  by (simp add: Object_keys_def)

lemma lookup_Nil: "lookup [] k = 0"
  by (simp add: lookup_def)

lemma Object_keys_countKeys: "Object_keys (countKeys ks) = firstOccurrences ks"
  by (simp add: countKeys_def Object_keys_foldl_bump Object_keys_Nil)

lemma lookup_foldl_bump:
  "lookup (foldl bump counts ks) k = lookup counts k + count_list ks k"
  by (induction ks arbitrary: counts) (simp_all add: lookup_bump)

lemma lookup_countKeys: "lookup (countKeys ks) k = count_list ks k"
  by (simp add: countKeys_def lookup_foldl_bump lookup_Nil)

lemma firstOccurrences_Nil_iff: "firstOccurrences ks = [] \<longleftrightarrow> ks = []"
  by (cases ks) simp_all

lemma foldl_greater_last:
  fixes c :: "'k \<Rightarrow> nat"
  shows "\<exists>pre post. k # ks = pre @ foldl (\<lambda>a b. if c a > c b then a else b) k ks # post \<and>
           (\<forall>y\<in>set pre. c y \<le> c (foldl (\<lambda>a b. if c a > c b then a else b) k ks)) \<and>
           (\<forall>y\<in>set post. c y < c (foldl (\<lambda>a b. if c a > c b then a else b) k ks))"
proof (induction ks rule: rev_induct)
  case Nil
  show ?case by (rule exI [of _ "[]"], rule exI [of _ "[]"]) simp
next
  case (snoc x ks)
  let ?f = "\<lambda>a b. if c a > c b then a else b"
  let ?r = "foldl ?f k ks"
  from snoc obtain pre post where
    split: "k # ks = pre @ ?r # post" and
    pre: "\<forall>y\<in>set pre. c y \<le> c ?r" and post: "\<forall>y\<in>set post. c y < c ?r"
    by blast
  show ?case
  proof (cases "c ?r > c x")
    case True
    then have r: "foldl ?f k (ks @ [x]) = ?r" by simp
    have "k # ks @ [x] = pre @ ?r # (post @ [x])" using split by simp
    moreover have "\<forall>y\<in>set (post @ [x]). c y < c ?r" using post True by simp
    ultimately show ?thesis
      unfolding r
      by (intro exI [of _ pre] exI [of _ "post @ [x]"]) (use pre in simp)
  next
    case False
    then have r: "foldl ?f k (ks @ [x]) = x" by simp
    have all: "\<forall>y\<in>set (k # ks). c y \<le> c x"
    proof
      fix y assume "y \<in> set (k # ks)"
      then have "y \<in> set (pre @ ?r # post)" by (simp only: split)
      then have "y \<in> set pre \<or> y = ?r \<or> y \<in> set post" by auto
      then have "c y \<le> c ?r" using pre post by (auto intro: less_imp_le)
      then show "c y \<le> c x" using False by simp
    qed
    show ?thesis
      unfolding r
      by (rule exI [of _ "k # ks"], rule exI [of _ "[]"]) (use all in simp)
  qed
qed

lemma maxKey_last_greatest:
  assumes "maxKey (countKeys ks) = Inr m"
  shows "\<exists>pre post. firstOccurrences ks = pre @ m # post \<and>
           (\<forall>y\<in>set pre. count_list ks y \<le> count_list ks m) \<and>
           (\<forall>y\<in>set post. count_list ks y < count_list ks m)"
proof (cases "firstOccurrences ks")
  case Nil
  then show ?thesis using assms by (simp add: maxKey_def reduce1_def Object_keys_countKeys)
next
  case (Cons k rest)
  then have "m = foldl (\<lambda>a b. if count_list ks a > count_list ks b then a else b) k rest"
    using assms by (simp add: maxKey_def reduce1_def Object_keys_countKeys lookup_countKeys)
  then show ?thesis
    using foldl_greater_last [of k rest "count_list ks"] Cons by simp
qed

lemma maxKey_total: "ks \<noteq> [] \<Longrightarrow> \<exists>m. maxKey (countKeys ks) = Inr m"
  by (cases "firstOccurrences ks")
    (simp_all add: maxKey_def reduce1_def Object_keys_countKeys firstOccurrences_Nil_iff)

lemma maxKey_empty: "maxKey (countKeys []) = Inl TypeError"
  by (simp add: maxKey_def reduce1_def countKeys_def Object_keys_Nil)

lemma bestSession_total:
  assumes "trades \<noteq> []"
  shows "\<exists>b. bestSession trades = Inr b"
proof -
  have "map session trades \<noteq> []" using assms by simp
  then show ?thesis
    unfolding bestSession_def sessionCounts_def by (rule maxKey_total)
qed

lemma analyzePerformanceInsights_total:
  "\<exists>r. analyzePerformanceInsights trades per = Inr r"
proof (cases "trades = []")
  case True
  then show ?thesis by (simp add: analyzePerformanceInsights_def)
next
  case False
  then obtain b where b: "bestSession trades = Inr b"
    using bestSession_total by blast
  have "analyzePerformanceInsights trades per =
      Inr \<lparr>period = per,
           insights = g_insights (defaultRecommendations (sessionInsight trades b
             (stopLossPattern trades (earlyExitPattern trades (riskRewardInsight trades
               (riskInsight trades (winRateInsight trades
                 \<lparr>g_insights = [], g_patterns = [], g_recommendations = []\<rparr>))))))),
           patterns = g_patterns (defaultRecommendations (sessionInsight trades b
             (stopLossPattern trades (earlyExitPattern trades (riskRewardInsight trades
               (riskInsight trades (winRateInsight trades
                 \<lparr>g_insights = [], g_patterns = [], g_recommendations = []\<rparr>))))))),
           pi_recommendations = g_recommendations (defaultRecommendations
             (sessionInsight trades b
             (stopLossPattern trades (earlyExitPattern trades (riskRewardInsight trades
               (riskInsight trades (winRateInsight trades
                 \<lparr>g_insights = [], g_patterns = [], g_recommendations = []\<rparr>)))))))\<rparr>"
    using False unfolding analyzePerformanceInsights_def Let_def b by simp
  then show ?thesis by blast
qed

section \<open>Properties of the state history analyzer\<close>

lemma replay_stop:
  assumes "\<not> (i < length sortedTrades \<and> int (length (l_history l)) < limit)"
  shows "replay clock sortedTrades limit i l = l"
  using assms by (subst replay.simps) (simp only: if_False)

lemma replay_step:
  "i < length sortedTrades \<Longrightarrow> int (length (l_history l)) < limit \<Longrightarrow>
     replay clock sortedTrades limit i l =
       replay clock sortedTrades limit (i + 1)
         (if significant (l_lastState l)
               (analyzePsychologicalState (clock i)
                  (slice (nat (max 0 (int i - 4))) (i + 1) sortedTrades))
          then recordEvent (sortedTrades ! i)
                 (analyzePsychologicalState (clock i)
                    (slice (nat (max 0 (int i - 4))) (i + 1) sortedTrades)) l
          else l)"
  by (subst replay.simps) (simp add: Let_def)

lemma consistent_recordEvent: "consistent l \<Longrightarrow> consistent (recordEvent t st l)"
  by (simp add: consistent_def recordEvent_def)

lemma replay_consistent:
  "consistent l \<Longrightarrow> consistent (replay clock sortedTrades limit i l)"
proof (induction clock sortedTrades limit i l rule: replay.induct)
  case (1 clock sortedTrades limit i l)
  show ?case
  proof (cases "i < length sortedTrades \<and> int (length (l_history l)) < limit")
    case True
    then show ?thesis
      using "1.IH" [OF True refl refl refl] "1.prems"
      by (simp add: replay_step consistent_recordEvent)
  next
    case False
    then show ?thesis using "1.prems" by (simp add: replay_stop)
  qed
qed

lemma replay_length_le:
  "int (length (l_history l)) \<le> limit \<Longrightarrow>
     int (length (l_history (replay clock sortedTrades limit i l))) \<le> limit"
proof (induction clock sortedTrades limit i l rule: replay.induct)
  case (1 clock sortedTrades limit i l)
  show ?case
  proof (cases "i < length sortedTrades \<and> int (length (l_history l)) < limit")
    case True
    then show ?thesis
      using "1.IH" [OF True refl refl refl] "1.prems"
      by (simp add: replay_step recordEvent_def)
  next
    case False
    then show ?thesis using "1.prems" by (simp add: replay_stop)
  qed
qed

lemma replay_length_mono:
  "length (l_history l) \<le> length (l_history (replay clock sortedTrades limit i l))"
proof (induction clock sortedTrades limit i l rule: replay.induct)
  case (1 clock sortedTrades limit i l)
  show ?case
  proof (cases "i < length sortedTrades \<and> int (length (l_history l)) < limit")
    case True
    have "length (l_history (recordEvent t st l)) = Suc (length (l_history l))" for t st
      by (simp add: recordEvent_def)
    then show ?thesis
      using "1.IH" [OF True refl refl refl] True
      by (simp add: replay_step split: if_splits)
  next
    case False
    then show ?thesis by (simp add: replay_stop)
  qed
qed

lemma replay_first_recorded:
  assumes "i < length sortedTrades" and "int (length (l_history l)) < limit"
    and "l_lastState l = None"
  shows "length (l_history l) < length (l_history (replay clock sortedTrades limit i l))"
proof -
  let ?st = "analyzePsychologicalState (clock i)
               (slice (nat (max 0 (int i - 4))) (i + 1) sortedTrades)"
  have "replay clock sortedTrades limit i l =
      replay clock sortedTrades limit (i + 1) (recordEvent (sortedTrades ! i) ?st l)"
    using assms by (simp add: replay_step significant_def)
  moreover have "length (l_history (recordEvent (sortedTrades ! i) ?st l))
      \<le> length (l_history (replay clock sortedTrades limit (i + 1)
            (recordEvent (sortedTrades ! i) ?st l)))"
    by (rule replay_length_mono)
  moreover have "length (l_history (recordEvent (sortedTrades ! i) ?st l))
      = Suc (length (l_history l))"
    by (simp add: recordEvent_def)
  ultimately show ?thesis by simp
qed

lemma analyzeStateHistory_nonempty:
  assumes "trades \<noteq> []"
  shows "analyzeStateHistory clock trades limit =
     (let l = replay clock (sort_key entryTime trades) limit 0 initialLoop
      in case maxKey (countKeys (l_states l)) of
           Inl e \<Rightarrow> Inl e
         | Inr common \<Rightarrow>
             Inr \<lparr>history = slice0 limit (l_history l),
                  summary = \<lparr>totalChanges = l_stateChangeCount l,
                             mostCommonState = common,
                             averageConfidence = averageOf (l_confidences l),
                             volatility = volatilityOf (l_confidences l)\<rparr>\<rparr>)"
  using assms by (simp add: analyzeStateHistory_def)

lemma consistent_initial: "consistent initialLoop"
  by (simp add: consistent_def initialLoop_def)

lemma history_limit_ge1:
  assumes "trades \<noteq> []" and "1 \<le> limit"
  shows "\<exists>r. analyzeStateHistory clock trades limit = Inr r \<and>
           totalChanges (summary r) = length (history r) \<and>
           int (length (history r)) \<le> limit \<and> history r \<noteq> [] \<and>
           history r = l_history (replay clock (sort_key entryTime trades) limit 0 initialLoop) \<and>
           maxKey (countKeys (map h_state (history r))) = Inr (mostCommonState (summary r))"
proof -
  let ?l = "replay clock (sort_key entryTime trades) limit 0 initialLoop"
  have cons: "consistent ?l" by (rule replay_consistent) (rule consistent_initial)
  have le: "int (length (l_history ?l)) \<le> limit"
    using assms(2) by (intro replay_length_le) (simp add: initialLoop_def)
  have "length (l_history initialLoop) < length (l_history ?l)"
    using assms by (intro replay_first_recorded) (simp_all add: initialLoop_def)
  then have ne: "l_history ?l \<noteq> []" by auto
  then have "l_states ?l \<noteq> []" using cons by (auto simp: consistent_def)
  then obtain m where m: "maxKey (countKeys (l_states ?l)) = Inr m"
    using maxKey_total by blast
  have sl: "slice0 limit (l_history ?l) = l_history ?l"
    using le assms(2) by (simp add: slice0_def)
  show ?thesis
    using m ne le cons
    by (simp add: analyzeStateHistory_nonempty [OF assms(1)] Let_def sl consistent_def)
qed

lemma history_limit_le0:
  assumes "trades \<noteq> []" and "limit \<le> 0"
  shows "analyzeStateHistory clock trades limit = Inl TypeError"
proof -
  have "replay clock (sort_key entryTime trades) limit 0 initialLoop = initialLoop"
    using assms(2) by (intro replay_stop) simp
  then show ?thesis
    by (simp add: analyzeStateHistory_nonempty [OF assms(1)] Let_def maxKey_empty
        initialLoop_def)
qed

lemma Math_round_sqrt:
  assumes "(real_of_int k - 1 / 2)\<^sup>2 \<le> v" and "v < (real_of_int k + 1 / 2)\<^sup>2" and "1 \<le> k"
  shows "Math_round (sqrt v) = k"
proof -
  have lo: "real_of_int k - 1 / 2 \<le> sqrt v"
    using assms(1) by (rule real_le_rsqrt)
  have "0 \<le> real_of_int k + 1 / 2" using assms(3) by simp
  then have hi: "sqrt v < real_of_int k + 1 / 2"
    using assms(2) by (intro real_less_lsqrt) simp_all
  show ?thesis
    unfolding Math_round_def using lo hi by (intro floor_unique) simp_all
qed

lemma volatilityOf_eq:
  assumes "(real_of_int k - 1 / 2)\<^sup>2 \<le> varianceOf cs"
    and "varianceOf cs < (real_of_int k + 1 / 2)\<^sup>2" and "1 \<le> k"
  shows "volatilityOf cs = real_of_int k / 100"
  using Math_round_sqrt [OF assms] by (simp add: volatilityOf_def)

lemmas classifier_defs = analyzePsychologicalState_def classify_def defaultRule_def
  targetRule_def stopLossRule_def earlyExitRule_def riskRule_def winRateRule_def
  initialVars_def winRate_def winningTrades_def avgRiskUsed_def avgTargetAchieved_def
  earlyExits_def stopLossHits_def Math_round_def


text \<open>Two trades handed over newest first: a win, then a loss, both at 2 percent risk.\<close>

lemma window_win:
  "analyzePsychologicalState now [sampleTrade 101 1 2 100] =
     \<lparr>state = ''CONFIDENT'', confidence = 95, riskTolerance = 80, emotionalBalance = 50,
      lastUpdated = now, recommendations = [''Continue current trading approach'']\<rparr>"
  by (simp add: classifier_defs sampleTrade_def)

lemma window_win_loss:
  "analyzePsychologicalState now [sampleTrade 101 1 2 100, sampleTrade 102 2 2 (- 100)] =
     \<lparr>state = ''NEUTRAL'', confidence = 50, riskTolerance = 50, emotionalBalance = 50,
      lastUpdated = now, recommendations = [''Continue current trading approach'']\<rparr>"
  by (simp add: classifier_defs sampleTrade_def)

lemma sorted_win_loss:
  "sort_key entryTime [sampleTrade 102 2 2 (- 100), sampleTrade 101 1 2 100]
     = [sampleTrade 101 1 2 100, sampleTrade 102 2 2 (- 100)]"
  by (simp add: sampleTrade_def)

lemma replay_win_loss:
  "replay epoch [sampleTrade 101 1 2 100, sampleTrade 102 2 2 (- 100)] 50 0 initialLoop =
     \<lparr>l_history =
        [\<lparr>timestamp = 1, h_state = ''CONFIDENT'', h_confidence = 95,
          trigger = ''Profitable trade'',
          h_context = \<lparr>c_tradeId = 101, c_profitLoss = 100, c_riskPercentUsed = 2\<rparr>\<rparr>,
         \<lparr>timestamp = 2, h_state = ''NEUTRAL'', h_confidence = 50,
          trigger = ''Losing trade'',
          h_context = \<lparr>c_tradeId = 102, c_profitLoss = - 100, c_riskPercentUsed = 2\<rparr>\<rparr>],
      l_states = [''CONFIDENT'', ''NEUTRAL''], l_confidences = [95, 50],
      l_lastState = Some \<lparr>state = ''NEUTRAL'', confidence = 50, riskTolerance = 50,
         emotionalBalance = 50, lastUpdated = epoch 1,
         recommendations = [''Continue current trading approach'']\<rparr>,
      l_stateChangeCount = 2\<rparr>"
  by (simp add: replay.simps initialLoop_def slice_def window_win window_win_loss
      significant_def recordEvent_def Let_def)
     (simp add: sampleTrade_def getStateTrigger_def)

lemma maxKey_win_loss: "maxKey (countKeys [''CONFIDENT'', ''NEUTRAL'']) = Inr ''NEUTRAL''"
  by (simp add: maxKey_def countKeys_def bump_def Object_keys_def reduce1_def lookup_def)

lemma averageOf_win_loss: "averageOf [95, 50] = 73"
  by (simp add: averageOf_def Math_round_def)

lemma varianceOf_win_loss: "varianceOf [95, 50] = 1013 / 2"
  by (simp add: varianceOf_def averageOf_win_loss)

lemma volatilityOf_win_loss: "volatilityOf [95, 50] = 23 / 100"
  using volatilityOf_eq [of 23 "[95, 50]"] by (simp add: varianceOf_win_loss power2_eq_square)

lemma history_win_loss:
  "analyzeStateHistory epoch [sampleTrade 102 2 2 (- 100), sampleTrade 101 1 2 100] 50 =
     Inr \<lparr>history =
        [\<lparr>timestamp = 1, h_state = ''CONFIDENT'', h_confidence = 95,
          trigger = ''Profitable trade'',
          h_context = \<lparr>c_tradeId = 101, c_profitLoss = 100, c_riskPercentUsed = 2\<rparr>\<rparr>,
         \<lparr>timestamp = 2, h_state = ''NEUTRAL'', h_confidence = 50,
          trigger = ''Losing trade'',
          h_context = \<lparr>c_tradeId = 102, c_profitLoss = - 100, c_riskPercentUsed = 2\<rparr>\<rparr>],
       summary = \<lparr>totalChanges = 2, mostCommonState = ''NEUTRAL'', averageConfidence = 73,
         volatility = 23 / 100\<rparr>\<rparr>"
proof -
  have ne: "[sampleTrade 102 2 2 (- 100), sampleTrade 101 1 2 100] \<noteq> []" by simp
  show ?thesis
    unfolding analyzeStateHistory_nonempty [OF ne] sorted_win_loss replay_win_loss Let_def
    by (simp add: maxKey_win_loss averageOf_win_loss volatilityOf_win_loss slice0_def)
qed

lemma bestSession_tie: "bestSession [sessionTrade LONDON, sessionTrade NY] = Inr NY"
  by (simp add: bestSession_def sessionCounts_def maxKey_def countKeys_def bump_def
      Object_keys_def reduce1_def lookup_def sessionTrade_def)

text \<open>
  Claim C10. For every non-empty trade list and every limit of at least 1 the analyzer
  returns a result whose \<open>totalChanges\<close> is the number of history entries; the first
  processed trade is always recorded, so the history is not empty, and it never has
  more than \<open>limit\<close> entries.
\<close>

theorem totalChanges_counts_history:
  "trades \<noteq> [] \<Longrightarrow> 1 \<le> limit \<Longrightarrow>
     \<exists>r. analyzeStateHistory clock trades limit = Inr r \<and>
         totalChanges (summary r) = length (history r) \<and>
         history r \<noteq> [] \<and>
         int (length (history r)) \<le> limit"
  using history_limit_ge1 [of trades limit clock] by blast

theorem totalChanges_counts_history_witness:
  "[sampleTrade 102 2 2 (- 100), sampleTrade 101 1 2 100] \<noteq> [] \<and> (1::int) \<le> 1 \<and>
   (\<exists>r. analyzeStateHistory epoch [sampleTrade 102 2 2 (- 100), sampleTrade 101 1 2 100] 1
          = Inr r \<and>
        totalChanges (summary r) = length (history r) \<and> history r \<noteq> [] \<and>
        int (length (history r)) \<le> 1)"
  using totalChanges_counts_history
    [of "[sampleTrade 102 2 2 (- 100), sampleTrade 101 1 2 100]" 1 epoch]
  by simp

text \<open>
  Claim C2. The state history analyzer is not total: with a non-empty trade list and
  the limit 0 the loop records nothing, the state counts have no key, and the reduce
  without an initial value throws a TypeError.
\<close>

theorem history_limit_zero_throws:
  "analyzeStateHistory epoch [sampleTrade 101 1 2 100] 0 = Inl TypeError"
  by (rule history_limit_le0) simp_all

text \<open>
  Claim C5, amended. Ties in the count maximisation go to the key encountered last:
  \<open>mostCommonState\<close> is a recorded state with the highest count, and every state first
  recorded after it has a strictly smaller count; likewise \<open>bestSession\<close> is a session
  with the highest trade count, and every session first seen after it has a strictly
  smaller count.
\<close>

theorem tie_goes_to_last_key:
  "(trades \<noteq> [] \<and> analyzeStateHistory clock trades limit = Inr r \<longrightarrow>
      (\<exists>pre post.
         firstOccurrences (map h_state (history r)) = pre @ mostCommonState (summary r) # post \<and>
         (\<forall>s\<in>set pre. count_list (map h_state (history r)) s
            \<le> count_list (map h_state (history r)) (mostCommonState (summary r))) \<and>
         (\<forall>s\<in>set post. count_list (map h_state (history r)) s
            < count_list (map h_state (history r)) (mostCommonState (summary r))))) \<and>
   (bestSession trades = Inr b \<longrightarrow>
      (\<exists>pre post.
         firstOccurrences (map session trades) = pre @ b # post \<and>
         (\<forall>s\<in>set pre. count_list (map session trades) s \<le> count_list (map session trades) b) \<and>
         (\<forall>s\<in>set post. count_list (map session trades) s < count_list (map session trades) b)))"
proof (intro conjI impI)
  assume a: "trades \<noteq> [] \<and> analyzeStateHistory clock trades limit = Inr r"
  then have "1 \<le> limit"
    using history_limit_le0 [of trades limit clock] by (cases "limit \<le> 0") auto
  then have "maxKey (countKeys (map h_state (history r))) = Inr (mostCommonState (summary r))"
    using history_limit_ge1 [of trades limit clock] a by auto
  then show "\<exists>pre post.
      firstOccurrences (map h_state (history r)) = pre @ mostCommonState (summary r) # post \<and>
      (\<forall>s\<in>set pre. count_list (map h_state (history r)) s
         \<le> count_list (map h_state (history r)) (mostCommonState (summary r))) \<and>
      (\<forall>s\<in>set post. count_list (map h_state (history r)) s
         < count_list (map h_state (history r)) (mostCommonState (summary r)))"
    by (rule maxKey_last_greatest)
next
  assume "bestSession trades = Inr b"
  then have "maxKey (countKeys (map session trades)) = Inr b"
    by (simp add: bestSession_def sessionCounts_def)
  then show "\<exists>pre post.
      firstOccurrences (map session trades) = pre @ b # post \<and>
      (\<forall>s\<in>set pre. count_list (map session trades) s \<le> count_list (map session trades) b) \<and>
      (\<forall>s\<in>set post. count_list (map session trades) s < count_list (map session trades) b)"
    by (rule maxKey_last_greatest)
qed


theorem tie_goes_to_last_key_witness:
  "[sampleTrade 102 2 2 (- 100), sampleTrade 101 1 2 100] \<noteq> [] \<and>
   analyzeStateHistory epoch [sampleTrade 102 2 2 (- 100), sampleTrade 101 1 2 100] 50 =
     Inr \<lparr>history =
        [\<lparr>timestamp = 1, h_state = ''CONFIDENT'', h_confidence = 95,
          trigger = ''Profitable trade'',
          h_context = \<lparr>c_tradeId = 101, c_profitLoss = 100, c_riskPercentUsed = 2\<rparr>\<rparr>,
         \<lparr>timestamp = 2, h_state = ''NEUTRAL'', h_confidence = 50,
          trigger = ''Losing trade'',
          h_context = \<lparr>c_tradeId = 102, c_profitLoss = - 100, c_riskPercentUsed = 2\<rparr>\<rparr>],
       summary = \<lparr>totalChanges = 2, mostCommonState = ''NEUTRAL'', averageConfidence = 73,
         volatility = 23 / 100\<rparr>\<rparr> \<and>
   (\<exists>pre post.
      firstOccurrences [''CONFIDENT'', ''NEUTRAL''] = pre @ ''NEUTRAL'' # post \<and>
      (\<forall>s\<in>set pre. count_list [''CONFIDENT'', ''NEUTRAL''] s
         \<le> count_list [''CONFIDENT'', ''NEUTRAL''] ''NEUTRAL'') \<and>
      (\<forall>s\<in>set post. count_list [''CONFIDENT'', ''NEUTRAL''] s
         < count_list [''CONFIDENT'', ''NEUTRAL''] ''NEUTRAL'')) \<and>
   bestSession [sessionTrade LONDON, sessionTrade NY] = Inr NY \<and>
   (\<exists>pre post.
      firstOccurrences [LONDON, NY] = pre @ NY # post \<and>
      (\<forall>s\<in>set pre. count_list [LONDON, NY] s \<le> count_list [LONDON, NY] NY) \<and>
      (\<forall>s\<in>set post. count_list [LONDON, NY] s < count_list [LONDON, NY] NY))"
proof -
  let ?r = "\<lparr>history =
        [\<lparr>timestamp = 1, h_state = ''CONFIDENT'', h_confidence = 95,
          trigger = ''Profitable trade'',
          h_context = \<lparr>c_tradeId = 101, c_profitLoss = 100, c_riskPercentUsed = 2\<rparr>\<rparr>,
         \<lparr>timestamp = 2, h_state = ''NEUTRAL'', h_confidence = 50,
          trigger = ''Losing trade'',
          h_context = \<lparr>c_tradeId = 102, c_profitLoss = - 100, c_riskPercentUsed = 2\<rparr>\<rparr>],
       summary = \<lparr>totalChanges = 2, mostCommonState = ''NEUTRAL'', averageConfidence = 73,
         volatility = 23 / 100\<rparr>\<rparr>"
  have states: "map h_state (history ?r) = [''CONFIDENT'', ''NEUTRAL'']"
    and common: "mostCommonState (summary ?r) = ''NEUTRAL''"
    by simp_all
  have sessions: "map session [sessionTrade LONDON, sessionTrade NY] = [LONDON, NY]"
    by (simp add: sessionTrade_def)
  have ne: "[sampleTrade 102 2 2 (- 100), sampleTrade 101 1 2 100] \<noteq> []" by simp
  note t1 = tie_goes_to_last_key
    [of "[sampleTrade 102 2 2 (- 100), sampleTrade 101 1 2 100]" epoch 50 ?r,
     THEN conjunct1, rule_format, OF conjI, OF ne history_win_loss]
  note t2 = tie_goes_to_last_key
    [of "[sessionTrade LONDON, sessionTrade NY]" epoch 50 ?r NY,
     THEN conjunct2, rule_format, OF bestSession_tie]
  show ?thesis
    using t1 t2 history_win_loss bestSession_tie
    unfolding states common sessions by (intro conjI ne) assumption+
qed

text \<open>
  Claim C5 as stated fails. Two trades, a win and then a loss, give the recorded
  states CONFIDENT and NEUTRAL, one event each; the state encountered first is
  CONFIDENT and the analyzer returns NEUTRAL. Two trades in the sessions LONDON and NY
  give \<open>bestSession = NY\<close>, not the first key LONDON.
\<close>

theorem tie_first_key_counterexample:
  "analyzeStateHistory epoch [sampleTrade 102 2 2 (- 100), sampleTrade 101 1 2 100] 50 =
     Inr \<lparr>history =
        [\<lparr>timestamp = 1, h_state = ''CONFIDENT'', h_confidence = 95,
          trigger = ''Profitable trade'',
          h_context = \<lparr>c_tradeId = 101, c_profitLoss = 100, c_riskPercentUsed = 2\<rparr>\<rparr>,
         \<lparr>timestamp = 2, h_state = ''NEUTRAL'', h_confidence = 50,
          trigger = ''Losing trade'',
          h_context = \<lparr>c_tradeId = 102, c_profitLoss = - 100, c_riskPercentUsed = 2\<rparr>\<rparr>],
       summary = \<lparr>totalChanges = 2, mostCommonState = ''NEUTRAL'', averageConfidence = 73,
         volatility = 23 / 100\<rparr>\<rparr> \<and>
   map session [sessionTrade LONDON, sessionTrade NY] = [LONDON, NY] \<and>
   bestSession [sessionTrade LONDON, sessionTrade NY] = Inr NY"
  using history_win_loss bestSession_tie by (simp add: sessionTrade_def)

text \<open>
  Four trades: three losses and a win, at 2, 5, 2 and 5 percent risk.
\<close>

lemma window_1:
  "analyzePsychologicalState now [sampleTrade 201 1 2 (- 1)] =
     \<lparr>state = ''FRUSTRATED'', confidence = 20, riskTolerance = 20, emotionalBalance = 50,
      lastUpdated = now, recommendations = [''Continue current trading approach'']\<rparr>"
  by (simp add: classifier_defs sampleTrade_def)

lemma window_2:
  "analyzePsychologicalState now [sampleTrade 201 1 2 (- 1), sampleTrade 202 2 5 (- 1)] =
     \<lparr>state = ''GREEDY'', confidence = 20, riskTolerance = 40, emotionalBalance = 50,
      lastUpdated = now, recommendations = [''Reduce risk per trade'']\<rparr>"
  by (simp add: classifier_defs sampleTrade_def)

lemma window_3:
  "analyzePsychologicalState now
     [sampleTrade 201 1 2 (- 1), sampleTrade 202 2 5 (- 1), sampleTrade 203 3 2 (- 1)] =
     \<lparr>state = ''FRUSTRATED'', confidence = 20, riskTolerance = 20, emotionalBalance = 50,
      lastUpdated = now, recommendations = [''Continue current trading approach'']\<rparr>"
  by (simp add: classifier_defs sampleTrade_def)

lemma window_4:
  "analyzePsychologicalState now
     [sampleTrade 201 1 2 (- 1), sampleTrade 202 2 5 (- 1), sampleTrade 203 3 2 (- 1),
      sampleTrade 204 4 5 1] =
     \<lparr>state = ''GREEDY'', confidence = 35, riskTolerance = 55, emotionalBalance = 50,
      lastUpdated = now, recommendations = [''Reduce risk per trade'']\<rparr>"
  by (simp add: classifier_defs sampleTrade_def)

lemma sorted_four:
  "sort_key entryTime
     [sampleTrade 201 1 2 (- 1), sampleTrade 202 2 5 (- 1), sampleTrade 203 3 2 (- 1),
      sampleTrade 204 4 5 1] =
     [sampleTrade 201 1 2 (- 1), sampleTrade 202 2 5 (- 1), sampleTrade 203 3 2 (- 1),
      sampleTrade 204 4 5 1]"
  by (simp add: sampleTrade_def)

lemma replay_four:
  "replay epoch
     [sampleTrade 201 1 2 (- 1), sampleTrade 202 2 5 (- 1), sampleTrade 203 3 2 (- 1),
      sampleTrade 204 4 5 1] 50 0 initialLoop =
     \<lparr>l_history =
        [\<lparr>timestamp = 1, h_state = ''FRUSTRATED'', h_confidence = 20,
          trigger = ''Losing trade'',
          h_context = \<lparr>c_tradeId = 201, c_profitLoss = - 1, c_riskPercentUsed = 2\<rparr>\<rparr>,
         \<lparr>timestamp = 2, h_state = ''GREEDY'', h_confidence = 20,
          trigger = ''Losing trade'',
          h_context = \<lparr>c_tradeId = 202, c_profitLoss = - 1, c_riskPercentUsed = 5\<rparr>\<rparr>,
         \<lparr>timestamp = 3, h_state = ''FRUSTRATED'', h_confidence = 20,
          trigger = ''Losing trade'',
          h_context = \<lparr>c_tradeId = 203, c_profitLoss = - 1, c_riskPercentUsed = 2\<rparr>\<rparr>,
         \<lparr>timestamp = 4, h_state = ''GREEDY'', h_confidence = 35,
          trigger = ''Profitable trade'',
          h_context = \<lparr>c_tradeId = 204, c_profitLoss = 1, c_riskPercentUsed = 5\<rparr>\<rparr>],
      l_states = [''FRUSTRATED'', ''GREEDY'', ''FRUSTRATED'', ''GREEDY''],
      l_confidences = [20, 20, 20, 35],
      l_lastState = Some \<lparr>state = ''GREEDY'', confidence = 35, riskTolerance = 55,
         emotionalBalance = 50, lastUpdated = epoch 3,
         recommendations = [''Reduce risk per trade'']\<rparr>,
      l_stateChangeCount = 4\<rparr>"
  by (simp add: replay.simps initialLoop_def slice_def window_1 window_2 window_3 window_4
      significant_def recordEvent_def Let_def)
     (simp add: sampleTrade_def getStateTrigger_def epoch_def)

lemma maxKey_four:
  "maxKey (countKeys [''FRUSTRATED'', ''GREEDY'', ''FRUSTRATED'', ''GREEDY'']) = Inr ''GREEDY''"
  by (simp add: maxKey_def countKeys_def bump_def Object_keys_def reduce1_def lookup_def)

lemma averageOf_four: "averageOf [20, 20, 20, 35] = 24"
  by (simp add: averageOf_def Math_round_def)

lemma varianceOf_four: "varianceOf [20, 20, 20, 35] = 169 / 4"
  by (simp add: varianceOf_def averageOf_four)

lemma volatilityOf_four: "volatilityOf [20, 20, 20, 35] = 7 / 100"
  using volatilityOf_eq [of 7 "[20, 20, 20, 35]"]
  by (simp add: varianceOf_four power2_eq_square)

lemma stdDev_four: "round2 (stdDev [20, 20, 20, 35] / 100) = 6 / 100"
proof -
  have "stdDev [20, 20, 20, 35] = sqrt (675 / 16)"
    by (simp add: stdDev_def mean_def power2_eq_square)
  moreover have "Math_round (sqrt (675 / 16)) = 6"
    by (rule Math_round_sqrt) (simp_all add: power2_eq_square)
  ultimately show ?thesis by (simp add: round2_def)
qed

text \<open>
  Claim C6. The volatility is computed from the squared distances to
  \<open>averageConfidence\<close>, the mean already rounded to an integer, not to the exact
  mean. For the recorded confidences 20, 20, 20, 35 the exact mean is 23.75 and the
  rounded one 24: the analyzer returns 0.07, the population standard deviation
  divided by 100 and rounded to two decimals is 0.06.
\<close>

theorem volatility_uses_rounded_mean:
  "analyzeStateHistory epoch
     [sampleTrade 201 1 2 (- 1), sampleTrade 202 2 5 (- 1), sampleTrade 203 3 2 (- 1),
      sampleTrade 204 4 5 1] 50 =
     Inr \<lparr>history =
        [\<lparr>timestamp = 1, h_state = ''FRUSTRATED'', h_confidence = 20,
          trigger = ''Losing trade'',
          h_context = \<lparr>c_tradeId = 201, c_profitLoss = - 1, c_riskPercentUsed = 2\<rparr>\<rparr>,
         \<lparr>timestamp = 2, h_state = ''GREEDY'', h_confidence = 20,
          trigger = ''Losing trade'',
          h_context = \<lparr>c_tradeId = 202, c_profitLoss = - 1, c_riskPercentUsed = 5\<rparr>\<rparr>,
         \<lparr>timestamp = 3, h_state = ''FRUSTRATED'', h_confidence = 20,
          trigger = ''Losing trade'',
          h_context = \<lparr>c_tradeId = 203, c_profitLoss = - 1, c_riskPercentUsed = 2\<rparr>\<rparr>,
         \<lparr>timestamp = 4, h_state = ''GREEDY'', h_confidence = 35,
          trigger = ''Profitable trade'',
          h_context = \<lparr>c_tradeId = 204, c_profitLoss = 1, c_riskPercentUsed = 5\<rparr>\<rparr>],
       summary = \<lparr>totalChanges = 4, mostCommonState = ''GREEDY'', averageConfidence = 24,
         volatility = 7 / 100\<rparr>\<rparr> \<and>
   round2 (stdDev [20, 20, 20, 35] / 100) = 6 / 100"
proof -
  have ne: "[sampleTrade 201 1 2 (- 1), sampleTrade 202 2 5 (- 1), sampleTrade 203 3 2 (- 1),
      sampleTrade 204 4 5 1] \<noteq> []" by simp
  show ?thesis
    unfolding analyzeStateHistory_nonempty [OF ne] sorted_four replay_four Let_def
    by (simp add: maxKey_four averageOf_four volatilityOf_four slice0_def stdDev_four)
qed

end
